theory Spec2Isabelle
  imports Main
begin

section \<open>Bottles: the dependency manager (src/backend/dependency.py)\<close>

text \<open>
  A shallow embedding of \<^verbatim>\<open>DependencyManager\<close>. The class talks to the outside world
  all the time (network, file system, the wine runner, the registry, a Gtk widget), so
  every call that leaves the class is written down as an \<^emph>\<open>event\<close> appended to a trace,
  and the answer the outside world gives to a call is read from a record of collaborators.
  Each answer is a function of the trace so far: which files exist when \<^verbatim>\<open>glob\<close> is called
  may depend on what was extracted before. Exceptions (and \<^verbatim>\<open>exit()\<close>, which raises
  \<^verbatim>\<open>SystemExit\<close>) are values on the left of a sum. Calls to \<^verbatim>\<open>logging\<close> are left out:
  they return \<^verbatim>\<open>None\<close> and touch nothing that is modelled.
\<close>

subsection \<open>Python values\<close>

datatype exn =
    SystemExit
  | KeyError
  | TypeError
  | AttributeError
  | FileNotFoundError
  | OtherError string

text \<open>\<^verbatim>\<open>step.get("k")\<close> is \<open>None\<close> for an absent key; the truth value of a string is
  that it is not empty, and an f-string prints \<^verbatim>\<open>None\<close> as the text "None".\<close>

definition truthy :: "string option \<Rightarrow> bool" where
  "truthy v = (case v of None \<Rightarrow> False | Some s \<Rightarrow> s \<noteq> [])"

definition fmt :: "string option \<Rightarrow> string" where
  "fmt v = (case v of None \<Rightarrow> ''None'' | Some s \<Rightarrow> s)"

text \<open>\<^verbatim>\<open>s.startswith(p)\<close>.\<close>

definition startswith :: "string \<Rightarrow> string \<Rightarrow> bool" where
  "startswith s p = (take (length p) s = p)"

text \<open>\<^verbatim>\<open>s.replace(old, new)\<close> for a non-empty \<open>old\<close>: every occurrence, left to right,
  without overlaps.\<close>

fun replace :: "string \<Rightarrow> string \<Rightarrow> string \<Rightarrow> string" where
  "replace [] old new = []"
| "replace (c # cs) old new =
     (if old \<noteq> [] \<and> take (length old) (c # cs) = old
      then new @ replace (drop (length old - 1) cs) old new
      else c # replace cs old new)"

text \<open>\<^verbatim>\<open>os.path.basename(p)\<close> on POSIX: what follows the last slash.\<close>

definition basename :: "string \<Rightarrow> string" where
  "basename p = rev (takeWhile (\<lambda>c. c \<noteq> CHR ''/'') (rev p))"

text \<open>\<^verbatim>\<open>os.path.splitext(p)[0]\<close> on POSIX: the path up to the last dot of its last
  component, when a character other than a dot comes before that dot in the
  component; the whole path otherwise.\<close>

definition splitext0 :: "string \<Rightarrow> string" where
  "splitext0 p =
     (if CHR ''.'' \<in> set (dropWhile (\<lambda>c. c = CHR ''.'') (basename p))
      then rev (tl (dropWhile (\<lambda>c. c \<noteq> CHR ''.'') (rev p)))
      else p)"

text \<open>\<^verbatim>\<open>s.strip()\<close>, on the ASCII white space.\<close>

definition isspace :: "char \<Rightarrow> bool" where
  "isspace c = (c \<in> {CHR '' '', CHR 0x09, CHR 0x0A, CHR 0x0B, CHR 0x0C, CHR 0x0D,
                      CHR 0x1C, CHR 0x1D, CHR 0x1E, CHR 0x1F})"

definition strip :: "string \<Rightarrow> string" where
  "strip s = rev (dropWhile isspace (rev (dropWhile isspace s)))"

subsection \<open>Manifests, steps and the bottle configuration\<close>

text \<open>A step is a YAML mapping. \<open>action\<close> is always there; every other key may be
  absent (\<open>None\<close>).\<close>

record step =
  action :: string
  url :: "string option"
  file_name :: "string option"
  rename :: "string option"
  file_checksum :: "string option"
  arguments :: "string option"
  environment :: "string option"
  dest :: "string option"
  dlls :: "string list option"
  fonts :: "string list option"
  dll :: "string option"
  step_type :: "string option"
  step_key :: "string option"
  step_value :: "string option"
  step_data :: "string option"
  step_name :: "string option"
  step_file :: "string option"

record manifest =
  Steps :: "step list"
  Uninstaller :: "string option"

text \<open>The part of a bottle's configuration that \<^verbatim>\<open>async_install\<close> reads or writes.\<close>

record BottleConfig =
  Name :: string
  Versioning :: bool
  Installed_Dependencies :: "string list"
  Uninstallers :: "string \<rightharpoonup> string"

text \<open>\<^verbatim>\<open>dependency\<close> is the pair of a name and its catalog entry, of which only
  \<^verbatim>\<open>Category\<close> is read.\<close>

record dependency =
  dep_name :: string
  Category :: string

subsection \<open>Events and collaborators\<close>

datatype event =
    CheckConnection
  | UrlOpen string
  | CreateBottleState string
  | NewDownload string
  | DownloadEntryRemove
  | WidgetSetInstalled bool
  | WidgetSetErr
  | BtnInstallSetSensitive bool
  | Download "string option" "string option" "string option" "string option"
  | RunExecutable string "string option" "string option"
  | RunCommand string
  | RunUninstaller string
  | CabExtractRun string "string option"
  | OsRemove string
  | PathExists string
  | Rmtree string
  | Makedirs string
  | ExtractArchive string string
  | CopyFile string string
  | Glob string
  | RegAdd "string option" "string option" "string option" "string option"
  | UpdateConfig string string

type_synonym trace = "event list"

text \<open>What the class does not define itself: the constants of \<^verbatim>\<open>globals\<close>, the
  pure helpers of \<^verbatim>\<open>utils\<close> and of the standard library, and the answers of the
  outside world. A fallible call answers \<open>Some e\<close> when it raises \<open>e\<close>.\<close>

record collab =
  Paths_temp :: string
  Paths_bottles :: string
  repo_dependencies :: string
  check_connection :: "trace \<Rightarrow> bool"
  urlopen_read :: "trace \<Rightarrow> string \<Rightarrow> exn + string"
  decode_utf8 :: "string \<Rightarrow> exn + string"
  yaml_safe_load :: "string \<Rightarrow> exn + manifest"
  validate_url :: "string \<Rightarrow> bool"
  download :: "trace \<Rightarrow> string option \<Rightarrow> string option \<Rightarrow> string option \<Rightarrow> string option \<Rightarrow> bool"
  cabextract_run :: "trace \<Rightarrow> string \<Rightarrow> string option \<Rightarrow> bool"
  get_bottle_path :: "BottleConfig \<Rightarrow> string"
  run_command :: "trace \<Rightarrow> string \<Rightarrow> string"
  os_remove :: "trace \<Rightarrow> string \<Rightarrow> exn option"
  path_exists :: "trace \<Rightarrow> string \<Rightarrow> bool"
  rmtree :: "trace \<Rightarrow> string \<Rightarrow> exn option"
  makedirs :: "trace \<Rightarrow> string \<Rightarrow> exn option"
  extract_archive :: "trace \<Rightarrow> string \<Rightarrow> string \<Rightarrow> exn option"
  copyfile :: "trace \<Rightarrow> string \<Rightarrow> string \<Rightarrow> exn option"
  glob :: "trace \<Rightarrow> string \<Rightarrow> string list"

subsection \<open>Computations with a trace and exceptions\<close>

type_synonym 'a io = "trace \<Rightarrow> (exn + 'a) \<times> trace"

definition io_return :: "'a \<Rightarrow> 'a io" where
  "io_return x tr = (Inr x, tr)"

definition io_raise :: "exn \<Rightarrow> 'a io" where
  "io_raise e tr = (Inl e, tr)"

definition io_bind :: "'a io \<Rightarrow> ('a \<Rightarrow> 'b io) \<Rightarrow> 'b io" where
  "io_bind m f tr = (case m tr of (Inl e, tr') \<Rightarrow> (Inl e, tr') | (Inr x, tr') \<Rightarrow> f x tr')"

definition io_then :: "unit io \<Rightarrow> 'b io \<Rightarrow> 'b io" where
  "io_then m k = io_bind m (\<lambda>_. k)"

text \<open>A call that cannot fail: the event is recorded, the answer is read from the
  trace before the call.\<close>

definition call :: "event \<Rightarrow> (trace \<Rightarrow> 'a) \<Rightarrow> 'a io" where
  "call e answer tr = (Inr (answer tr), tr @ [e])"

definition emit :: "event \<Rightarrow> unit io" where
  "emit e = call e (\<lambda>_. ())"

text \<open>A call that may raise.\<close>

definition call_raising :: "event \<Rightarrow> (trace \<Rightarrow> exn option) \<Rightarrow> unit io" where
  "call_raising e answer tr =
     (case answer tr of None \<Rightarrow> (Inr (), tr @ [e]) | Some x \<Rightarrow> (Inl x, tr @ [e]))"

definition call_result :: "event \<Rightarrow> (trace \<Rightarrow> exn + 'a) \<Rightarrow> 'a io" where
  "call_result e answer tr = (answer tr, tr @ [e])"

text \<open>\<^verbatim>\<open>if c: body\<close> with no \<^verbatim>\<open>else\<close>.\<close>

definition io_when :: "bool \<Rightarrow> unit io \<Rightarrow> unit io" where
  "io_when c m = (if c then m else io_return ())"

text \<open>\<^verbatim>\<open>d["k"]\<close> raises \<^verbatim>\<open>KeyError\<close> for an absent key.\<close>

definition subscript :: "'a option \<Rightarrow> 'a io" where
  "subscript v = (case v of None \<Rightarrow> io_raise KeyError | Some x \<Rightarrow> io_return x)"

subsection \<open>get_dependency\<close>

text \<open>What \<^verbatim>\<open>get_dependency\<close> returns: \<^verbatim>\<open>False\<close>, the text of the manifest, or the
  parsed manifest.\<close>

datatype fetched = PyFalse | PlainText string | Parsed manifest

definition manifest_url :: "collab \<Rightarrow> string \<Rightarrow> string \<Rightarrow> string" where
  "manifest_url c dependency_category dependency_name =
     repo_dependencies c @ ''/'' @ dependency_category @ ''/'' @ dependency_name @ ''.yml''"

text \<open>The body of the \<^verbatim>\<open>try\<close> block. \<open>urlopen_read\<close> answers for
  \<^verbatim>\<open>urllib.request.urlopen(...)\<close> and \<^verbatim>\<open>url.read()\<close> together: the bytes, or the exception
  either of them raises.\<close>

definition get_dependency_try :: "collab \<Rightarrow> string \<Rightarrow> string \<Rightarrow> bool \<Rightarrow> fetched io" where
  "get_dependency_try c dependency_name dependency_category plain =
     io_bind (call_result (UrlOpen (manifest_url c dependency_category dependency_name))
                (\<lambda>tr. urlopen_read c tr (manifest_url c dependency_category dependency_name)))
       (\<lambda>body.
          if plain
          then (case decode_utf8 c body of
                  Inl e \<Rightarrow> io_raise e
                | Inr txt \<Rightarrow> io_return (PlainText txt))
          else (case yaml_safe_load c body of
                  Inl e \<Rightarrow> io_raise e
                | Inr m \<Rightarrow> io_return (Parsed m)))"

text \<open>The bare \<^verbatim>\<open>except:\<close> catches every exception and returns \<^verbatim>\<open>False\<close>.\<close>

definition get_dependency :: "collab \<Rightarrow> string \<Rightarrow> string \<Rightarrow> bool \<Rightarrow> fetched io" where
  "get_dependency c dependency_name dependency_category plain =
     io_bind (call CheckConnection (check_connection c))
       (\<lambda>connected.
          if connected
          then (\<lambda>tr. case get_dependency_try c dependency_name dependency_category plain tr of
                        (Inl e, tr') \<Rightarrow> (Inr PyFalse, tr')
                      | (Inr r, tr') \<Rightarrow> (Inr r, tr'))
          else io_return PyFalse)"

text \<open>\<^verbatim>\<open>try: m except E: h\<close>.\<close>

definition io_except :: "exn \<Rightarrow> 'a io \<Rightarrow> 'a io \<Rightarrow> 'a io" where
  "io_except e m h tr =
     (case m tr of
        (Inl x, tr') \<Rightarrow> if x = e then h tr' else (Inl x, tr')
      | (Inr v, tr') \<Rightarrow> (Inr v, tr'))"

subsection \<open>The step handlers\<close>

text \<open>\<^verbatim>\<open>self.__manager.component_manager.download(component="dependency", ...)\<close>, called
  with the same four keys of the step by three handlers.\<close>

definition component_download :: "collab \<Rightarrow> step \<Rightarrow> bool io" where
  "component_download c step =
     call (Download (url step) (file_name step) (rename step) (file_checksum step))
       (\<lambda>tr. download c tr (url step) (file_name step) (rename step) (file_checksum step))"

text \<open>\<^verbatim>\<open>if step.get("rename"): file = step.get("rename") else: file = step.get("file_name")\<close>\<close>

definition renamed_file :: "step \<Rightarrow> string option" where
  "renamed_file step = (if truthy (rename step) then rename step else file_name step)"

fun step_delete_sys32_dlls :: "collab \<Rightarrow> BottleConfig \<Rightarrow> string list \<Rightarrow> unit io" where
  "step_delete_sys32_dlls c config [] = io_return ()"
| "step_delete_sys32_dlls c config (d # ds) =
     io_then
       (io_except FileNotFoundError
          (call_raising
             (OsRemove (Paths_bottles c @ ''/'' @ Name config @ ''/drive_c/windows/system32/'' @ d))
             (\<lambda>tr. os_remove c tr
                (Paths_bottles c @ ''/'' @ Name config @ ''/drive_c/windows/system32/'' @ d)))
          (io_return ()))
       (step_delete_sys32_dlls c config ds)"

text \<open>Returns \<^verbatim>\<open>None\<close> after running the installer, \<^verbatim>\<open>False\<close> when the download
  failed. \<open>widget\<close> tells whether a widget was given (\<^verbatim>\<open>widget is not None\<close>).\<close>

definition step_install_exe_msi ::
    "collab \<Rightarrow> BottleConfig \<Rightarrow> step \<Rightarrow> bool \<Rightarrow> bool option io" where
  "step_install_exe_msi c config step widget =
     io_bind (component_download c step)
       (\<lambda>dl. if dl
              then io_then
                     (emit (RunExecutable (Paths_temp c @ ''/'' @ fmt (renamed_file step))
                              (arguments step) (environment step)))
                     (io_return None)
              else io_then
                     (io_when widget (emit (BtnInstallSetSensitive True)))
                     (io_return (Some False)))"

definition uninstall_command :: "string \<Rightarrow> string" where
  "uninstall_command fname =
     ''uninstaller --list | grep '' @ [CHR 0x27] @ fname @ [CHR 0x27]
       @ '' | cut -f1 -d'' @ [CHR 0x5C] @ ''|''"

definition step_uninstall :: "collab \<Rightarrow> BottleConfig \<Rightarrow> string \<Rightarrow> unit io" where
  "step_uninstall c config fname =
     io_bind (call (RunCommand (uninstall_command fname))
                (\<lambda>tr. run_command c tr (uninstall_command fname)))
       (\<lambda>uuid. io_when (strip uuid \<noteq> []) (emit (RunUninstaller (strip uuid))))"

text \<open>\<^verbatim>\<open>if not CabExtract().run(path, name): if widget is not None: GLib.idle_add(widget.set_err)\<close>\<close>

definition cab_run :: "collab \<Rightarrow> string \<Rightarrow> string option \<Rightarrow> bool io" where
  "cab_run c path name = call (CabExtractRun path name) (\<lambda>tr. cabextract_run c tr path name)"

definition step_cab_extract :: "collab \<Rightarrow> step \<Rightarrow> bool \<Rightarrow> unit io" where
  "step_cab_extract c step widget =
     io_bind (subscript (url step))
       (\<lambda>u. if validate_url c u
             then io_bind (component_download c step)
                    (\<lambda>dl. io_when dl
                       (io_then
                          (io_bind
                             (cab_run c (Paths_temp c @ ''/'' @ fmt (renamed_file step))
                                (renamed_file step))
                             (\<lambda>ok. io_when (\<not> ok) (io_when widget (emit WidgetSetErr))))
                          (io_bind
                             (cab_run c (Paths_temp c @ ''/'' @ fmt (renamed_file step))
                                (Some (splitext0 (fmt (renamed_file step)))))
                             (\<lambda>ok. io_when (\<not> ok) (io_when widget (emit WidgetSetErr))))))
             else if startswith u ''temp/''
             then io_bind
                    (cab_run c
                       (replace u ''temp/'' (Paths_temp c @ ''/'') @ ''/'' @ fmt (file_name step))
                       (Some (if truthy (rename step)
                              then splitext0 (fmt (rename step))
                              else splitext0 (fmt (file_name step)))))
                    (\<lambda>ok. io_when (\<not> ok)
                       (io_then (io_when widget (emit WidgetSetErr)) (io_raise SystemExit)))
             else io_return ())"

text \<open>\<^verbatim>\<open>os.path.splitext(file)\<close> raises \<^verbatim>\<open>TypeError\<close> when \<open>file\<close> is \<^verbatim>\<open>None\<close>.\<close>

definition step_archive_extract :: "collab \<Rightarrow> step \<Rightarrow> unit io" where
  "step_archive_extract c step =
     io_bind (component_download c step)
       (\<lambda>dl. io_when dl
          (case renamed_file step of
             None \<Rightarrow> io_raise TypeError
           | Some file \<Rightarrow>
               io_then
                 (io_bind
                    (call (PathExists (Paths_temp c @ ''/'' @ splitext0 file))
                       (\<lambda>tr. path_exists c tr (Paths_temp c @ ''/'' @ splitext0 file)))
                    (\<lambda>ex. io_when ex
                       (call_raising (Rmtree (Paths_temp c @ ''/'' @ splitext0 file))
                          (\<lambda>tr. rmtree c tr (Paths_temp c @ ''/'' @ splitext0 file)))))
                 (io_then
                    (call_raising (Makedirs (Paths_temp c @ ''/'' @ splitext0 file))
                       (\<lambda>tr. makedirs c tr (Paths_temp c @ ''/'' @ splitext0 file)))
                    (call_raising
                       (ExtractArchive (Paths_temp c @ ''/'' @ file)
                          (Paths_temp c @ ''/'' @ splitext0 file))
                       (\<lambda>tr. extract_archive c tr (Paths_temp c @ ''/'' @ file)
                          (Paths_temp c @ ''/'' @ splitext0 file))))))"

text \<open>\<^verbatim>\<open>shutil.copyfile(src, dst)\<close>.\<close>

definition shutil_copyfile :: "collab \<Rightarrow> string \<Rightarrow> string \<Rightarrow> unit io" where
  "shutil_copyfile c src dst = call_raising (CopyFile src dst) (\<lambda>tr. copyfile c tr src dst)"

fun copy_fonts :: "collab \<Rightarrow> string \<Rightarrow> string \<Rightarrow> string list \<Rightarrow> unit io" where
  "copy_fonts c path bottle_path [] = io_return ()"
| "copy_fonts c path bottle_path (font # fs) =
     io_then
       (shutil_copyfile c (path @ ''/'' @ font)
          (bottle_path @ ''/drive_c/windows/Fonts/'' @ font))
       (copy_fonts c path bottle_path fs)"

text \<open>\<^verbatim>\<open>for font in step.get('fonts')\<close> raises \<^verbatim>\<open>TypeError\<close> when the key is absent.\<close>

definition step_install_fonts :: "collab \<Rightarrow> BottleConfig \<Rightarrow> step \<Rightarrow> unit io" where
  "step_install_fonts c config step =
     io_bind (subscript (url step))
       (\<lambda>u. case fonts step of
               None \<Rightarrow> io_raise TypeError
             | Some fs \<Rightarrow>
                 copy_fonts c (replace u ''temp/'' (Paths_temp c @ ''/''))
                   (get_bottle_path c config) fs)"

text \<open>The loop over the files \<^verbatim>\<open>glob\<close> found: each goes to \<open>target_dir/basename\<close>.\<close>

fun copy_globbed :: "collab \<Rightarrow> string \<Rightarrow> string list \<Rightarrow> unit io" where
  "copy_globbed c target_dir [] = io_return ()"
| "copy_globbed c target_dir (fg # fgs) =
     io_then (shutil_copyfile c fg (target_dir @ ''/'' @ basename fg))
       (copy_globbed c target_dir fgs)"

text \<open>\<^verbatim>\<open>"*" in step.get('file_name')\<close> raises \<^verbatim>\<open>TypeError\<close> when the key is absent; only
  \<^verbatim>\<open>FileNotFoundError\<close> is caught, and the handler then returns \<^verbatim>\<open>False\<close>.\<close>

definition step_copy_dll :: "collab \<Rightarrow> BottleConfig \<Rightarrow> step \<Rightarrow> bool option io" where
  "step_copy_dll c config step =
     io_bind (subscript (url step))
       (\<lambda>u. io_except FileNotFoundError
          (case file_name step of
             None \<Rightarrow> io_raise TypeError
           | Some fn \<Rightarrow>
               if CHR ''*'' \<in> set fn
               then io_bind
                      (call (Glob (replace u ''temp/'' (Paths_temp c @ ''/'') @ ''/'' @ fn))
                         (\<lambda>tr. glob c tr
                            (replace u ''temp/'' (Paths_temp c @ ''/'') @ ''/'' @ fn)))
                      (\<lambda>files.
                         io_then
                           (copy_globbed c
                              (get_bottle_path c config @ ''/drive_c/'' @ fmt (dest step)) files)
                           (io_return None))
               else io_then
                      (shutil_copyfile c
                         (replace u ''temp/'' (Paths_temp c @ ''/'') @ ''/'' @ fn)
                         (get_bottle_path c config @ ''/drive_c/'' @ fmt (dest step)))
                      (io_return None))
          (io_return (Some False)))"

definition dll_overrides_key :: string where
  "dll_overrides_key =
     ''HKEY_CURRENT_USER'' @ [CHR 0x5C] @ ''Software'' @ [CHR 0x5C] @ ''Wine''
       @ [CHR 0x5C] @ ''DllOverrides''"

definition fonts_key :: string where
  "fonts_key =
     ''HKEY_LOCAL_MACHINE'' @ [CHR 0x5C] @ ''Software'' @ [CHR 0x5C] @ ''Microsoft''
       @ [CHR 0x5C] @ ''Windows NT'' @ [CHR 0x5C] @ ''CurrentVersion'' @ [CHR 0x5C] @ ''Fonts''"

fun override_globbed :: "step \<Rightarrow> string list \<Rightarrow> unit io" where
  "override_globbed step [] = io_return ()"
| "override_globbed step (d # ds) =
     io_then
       (emit (RegAdd (Some dll_overrides_key) (Some (splitext0 (basename d)))
                (step_type step) None))
       (override_globbed step ds)"

definition step_override_dll :: "collab \<Rightarrow> BottleConfig \<Rightarrow> step \<Rightarrow> unit io" where
  "step_override_dll c config step =
     (case url step of
        Some u \<Rightarrow>
          if u \<noteq> [] \<and> startswith u ''temp/''
          then io_bind
                 (call (Glob (replace u ''temp/'' (Paths_temp c @ ''/'') @ ''/'' @ fmt (dll step)))
                    (\<lambda>tr. glob c tr
                       (replace u ''temp/'' (Paths_temp c @ ''/'') @ ''/'' @ fmt (dll step))))
                 (override_globbed step)
          else emit (RegAdd (Some dll_overrides_key) (dll step) (step_type step) None)
      | None \<Rightarrow> emit (RegAdd (Some dll_overrides_key) (dll step) (step_type step) None))"

definition step_set_register_key :: "collab \<Rightarrow> BottleConfig \<Rightarrow> step \<Rightarrow> unit io" where
  "step_set_register_key c config step =
     emit (RegAdd (step_key step) (step_value step) (step_data step) (step_type step))"

definition step_register_font :: "collab \<Rightarrow> BottleConfig \<Rightarrow> step \<Rightarrow> unit io" where
  "step_register_font c config step =
     emit (RegAdd (Some fonts_key) (step_name step) (step_file step) None)"

subsection \<open>async_install\<close>

text \<open>The local variables of \<^verbatim>\<open>async_install\<close> and what it leaves behind: the
  configuration (a dictionary shared with the caller, updated in place), the flag
  \<^verbatim>\<open>has_no_uninstaller\<close> and the events.\<close>

record frame =
  config :: BottleConfig
  has_no_uninstaller :: bool
  events :: trace

text \<open>The body of the loop is a sequence of \<^verbatim>\<open>if\<close> statements, none with an
  \<^verbatim>\<open>else\<close>. A block is the condition, whether the block first sets
  \<^verbatim>\<open>has_no_uninstaller = True\<close>, and the call of the handler, whose result is
  dropped.\<close>

type_synonym block = "bool \<times> bool \<times> unit io"

definition discard :: "'a io \<Rightarrow> unit io" where
  "discard m = io_bind m (\<lambda>_. io_return ())"

fun exec_blocks :: "block list \<Rightarrow> bool \<Rightarrow> trace \<Rightarrow> (exn + unit) \<times> bool \<times> trace" where
  "exec_blocks [] flag tr = (Inr (), flag, tr)"
| "exec_blocks ((cond, sets, handler) # bs) flag tr =
     (if cond
      then (case handler tr of
              (Inl e, tr') \<Rightarrow> (Inl e, flag \<or> sets, tr')
            | (Inr _, tr') \<Rightarrow> exec_blocks bs (flag \<or> sets) tr')
      else exec_blocks bs flag tr)"

definition step_blocks :: "collab \<Rightarrow> BottleConfig \<Rightarrow> bool \<Rightarrow> step \<Rightarrow> block list" where
  "step_blocks c cfg widget step =
     [(action step = ''delete_sys32_dlls'', False,
         io_bind (subscript (dlls step)) (step_delete_sys32_dlls c cfg)),
      (action step \<in> set [''install_exe'', ''install_msi''], False,
         discard (step_install_exe_msi c cfg step widget)),
      (action step = ''uninstall'', False,
         io_bind (subscript (file_name step)) (step_uninstall c cfg)),
      (action step = ''cab_extract'', True,
         step_cab_extract c step widget),
      (action step = ''archive_extract'', True,
         step_archive_extract c step),
      (action step \<in> set [''install_cab_fonts'', ''install_fonts''], True,
         step_install_fonts c cfg step),
      (action step \<in> set [''copy_cab_dll'', ''copy_dll''], True,
         discard (step_copy_dll c cfg step)),
      (action step = ''override_dll'', False,
         step_override_dll c cfg step),
      (action step = ''set_register_key'', False,
         step_set_register_key c cfg step),
      (action step = ''register_font'', False,
         step_register_font c cfg step)]"

text \<open>\<^verbatim>\<open>for step in manifest.get("Steps")\<close>: an exception leaves the loop and the
  function.\<close>

fun run_steps ::
    "collab \<Rightarrow> BottleConfig \<Rightarrow> bool \<Rightarrow> step list \<Rightarrow> bool \<Rightarrow> trace
       \<Rightarrow> (exn + unit) \<times> bool \<times> trace" where
  "run_steps c cfg widget [] flag tr = (Inr (), flag, tr)"
| "run_steps c cfg widget (step # steps) flag tr =
     (case exec_blocks (step_blocks c cfg widget step) flag tr of
        (Inl e, flag', tr') \<Rightarrow> (Inl e, flag', tr')
      | (Inr _, flag', tr') \<Rightarrow> run_steps c cfg widget steps flag' tr')"

text \<open>Modelled from the spec: \<^verbatim>\<open>self.__manager.update_config\<close> is a method of the
  manager, which is not in this file. The spec describes it as a "generic single-field
  environment config update, used both for the installed-dependency set and for the
  uninstaller mapping (keyed by dependency name under a nested Uninstallers field)".
  The first form is \<^verbatim>\<open>update_config(config=config, key="Installed_Dependencies", value=v)\<close>,
  the second \<^verbatim>\<open>update_config(config, key, value, "Uninstallers")\<close>.\<close>

definition update_config_installed :: "BottleConfig \<Rightarrow> string list \<Rightarrow> BottleConfig" where
  "update_config_installed cfg v = cfg\<lparr>Installed_Dependencies := v\<rparr>"

definition update_config_uninstaller :: "BottleConfig \<Rightarrow> string \<Rightarrow> string \<Rightarrow> BottleConfig" where
  "update_config_uninstaller cfg k v = cfg\<lparr>Uninstallers := (Uninstallers cfg)(k \<mapsto> v)\<rparr>"

text \<open>The part of \<^verbatim>\<open>async_install\<close> after the loop (lines 214 to 259). Under the
  guard of the second \<^verbatim>\<open>if\<close>, \<^verbatim>\<open>uninstaller\<close> is a non-empty string.\<close>

definition record_install ::
    "BottleConfig \<Rightarrow> dependency \<Rightarrow> bool \<Rightarrow> manifest \<Rightarrow> bool \<Rightarrow> trace \<Rightarrow> (exn + bool) \<times> frame" where
  "record_install cfg dep widget m flag tr =
     (let (cfg1, tr1) =
            (if dep_name dep \<notin> set (Installed_Dependencies cfg)
             then (update_config_installed cfg
                     (if Installed_Dependencies cfg \<noteq> []
                      then Installed_Dependencies cfg @ [dep_name dep]
                      else [dep_name dep]),
                   tr @ [UpdateConfig ''Installed_Dependencies'' []])
             else (cfg, tr));
          (cfg2, tr2) =
            (if truthy (Uninstaller m) \<or> flag
             then (update_config_uninstaller cfg1 (dep_name dep)
                     (if flag then ''NO_UNINSTALLER'' else fmt (Uninstaller m)),
                   tr1 @ [UpdateConfig (dep_name dep) ''Uninstallers''])
             else (cfg1, tr1));
          tr3 = tr2 @ [DownloadEntryRemove];
          tr4 = (if widget then tr3 @ [WidgetSetInstalled (\<not> flag)] else tr3)
      in (Inr True, \<lparr>config = cfg2, has_no_uninstaller = flag, events = tr4\<rparr>))"

text \<open>\<^verbatim>\<open>not manifest\<close>: \<^verbatim>\<open>False\<close> and the empty text are false; a mapping with the key
  \<^verbatim>\<open>Steps\<close> is not empty, so it is true.\<close>

fun is_not :: "fetched \<Rightarrow> bool" where
  "is_not PyFalse = True"
| "is_not (PlainText s) = (s = [])"
| "is_not (Parsed m) = False"

text \<open>\<^verbatim>\<open>async_install([config, dependency, widget])\<close>, started after the events \<open>tr\<close>.
  \<open>widget\<close> tells whether a widget was given. First (lines 111 to 126) the snapshot
  of a versioned bottle and the entry in the download manager.\<close>

definition before_fetch :: "BottleConfig \<Rightarrow> dependency \<Rightarrow> trace \<Rightarrow> trace" where
  "before_fetch cfg dep tr =
     (if Versioning cfg then tr @ [CreateBottleState (''before '' @ dep_name dep)] else tr)
       @ [NewDownload (dep_name dep)]"

text \<open>Lines 134 to 137: the manifest is fetched, parsed.\<close>

definition fetch_manifest :: "collab \<Rightarrow> BottleConfig \<Rightarrow> dependency \<Rightarrow> fetched io" where
  "fetch_manifest c cfg dep tr =
     get_dependency c (dep_name dep) (Category dep) False (before_fetch cfg dep tr)"

text \<open>\<^verbatim>\<open>widget.set_installed\<close> on line 143 is evaluated with no test of \<^verbatim>\<open>widget\<close>, and
  raises \<^verbatim>\<open>AttributeError\<close> on \<^verbatim>\<open>None\<close>; a text has no \<^verbatim>\<open>get\<close>.\<close>

definition async_install ::
    "collab \<Rightarrow> BottleConfig \<Rightarrow> dependency \<Rightarrow> bool \<Rightarrow> trace \<Rightarrow> (exn + bool) \<times> frame" where
  "async_install c cfg dep widget tr =
     (case fetch_manifest c cfg dep tr of
        (Inl e, tr3) \<Rightarrow> (Inl e, \<lparr>config = cfg, has_no_uninstaller = False, events = tr3\<rparr>)
      | (Inr man, tr3) \<Rightarrow>
          if is_not man
          then (if widget
                then (Inr False,
                      \<lparr>config = cfg, has_no_uninstaller = False,
                       events = tr3 @ [WidgetSetInstalled False]\<rparr>)
                else (Inl AttributeError,
                      \<lparr>config = cfg, has_no_uninstaller = False, events = tr3\<rparr>))
          else (case man of
                  Parsed m \<Rightarrow>
                    (case run_steps c cfg widget (Steps m) False tr3 of
                       (Inl e, flag, tr4) \<Rightarrow>
                         (Inl e, \<lparr>config = cfg, has_no_uninstaller = flag, events = tr4\<rparr>)
                     | (Inr _, flag, tr4) \<Rightarrow> record_install cfg dep widget m flag tr4)
                | _ \<Rightarrow>
                    (Inl AttributeError,
                     \<lparr>config = cfg, has_no_uninstaller = False, events = tr3\<rparr>)))"

text \<open>Installing the same dependency \<open>n\<close> times in sequence, as a caller does: each
  run starts from the configuration and the events the one before left, whatever it
  returned. The results are listed first to last.\<close>

fun install_n ::
    "collab \<Rightarrow> dependency \<Rightarrow> bool \<Rightarrow> nat \<Rightarrow> BottleConfig \<Rightarrow> trace
       \<Rightarrow> (exn + bool) list \<times> BottleConfig \<times> trace" where
  "install_n c dep widget 0 cfg tr = ([], cfg, tr)"
| "install_n c dep widget (Suc n) cfg tr =
     (case async_install c cfg dep widget tr of
        (r, fr) \<Rightarrow>
          (case install_n c dep widget n (config fr) (events fr) of
             (rs, cfg', tr') \<Rightarrow> (r # rs, cfg', tr')))"

text \<open>The actions whose blocks set \<^verbatim>\<open>has_no_uninstaller\<close> (lines 171 to 194).\<close>

definition no_uninstaller_actions :: "string list" where
  "no_uninstaller_actions =
     [''cab_extract'', ''archive_extract'', ''install_cab_fonts'', ''install_fonts'',
      ''copy_cab_dll'', ''copy_dll'']"

subsection \<open>Concrete collaborators\<close>

text \<open>A world for trying the functions on concrete inputs: \<open>online\<close> is the answer of
  \<^verbatim>\<open>check_connection\<close>, the repository serves a text that parses to \<open>m\<close>, and \<open>ok\<close>
  tells whether downloads, extractions and file operations succeed. A URL is valid when
  it starts with \<^verbatim>\<open>http\<close>; \<^verbatim>\<open>glob\<close> finds two files.\<close>

definition demo_world :: "bool \<Rightarrow> bool \<Rightarrow> manifest \<Rightarrow> collab" where
  "demo_world online ok m =
     \<lparr>Paths_temp = ''/tmp/bottles'',
      Paths_bottles = ''/home/bottles'',
      repo_dependencies = ''https://repo/dependencies'',
      check_connection = (\<lambda>tr. online),
      urlopen_read = (\<lambda>tr u. Inr ''Steps: []''),
      decode_utf8 = (\<lambda>body. Inr body),
      yaml_safe_load = (\<lambda>body. Inr m),
      validate_url = (\<lambda>u. startswith u ''http''),
      download = (\<lambda>tr u f r k. ok),
      cabextract_run = (\<lambda>tr p n. ok),
      get_bottle_path = (\<lambda>cfg. ''/home/bottles/'' @ Name cfg),
      run_command = (\<lambda>tr cmd. []),
      os_remove = (\<lambda>tr p. if ok then None else Some FileNotFoundError),
      path_exists = (\<lambda>tr p. False),
      rmtree = (\<lambda>tr p. None),
      makedirs = (\<lambda>tr p. None),
      extract_archive = (\<lambda>tr a d. if ok then None else Some (OtherError ''PatoolError'')),
      copyfile = (\<lambda>tr s d. if ok then None else Some FileNotFoundError),
      glob = (\<lambda>tr p. [''/tmp/bottles/x/a.dll'', ''/tmp/bottles/x/sub/b.dll''])\<rparr>"

text \<open>A world whose repository answers with an HTTP error, and one whose manifest is
  not YAML.\<close>

definition http_error_world :: collab where
  "http_error_world =
     (demo_world True True \<lparr>Steps = [], Uninstaller = None\<rparr>)
       \<lparr>urlopen_read := (\<lambda>tr u. Inl (OtherError ''HTTPError''))\<rparr>"

definition bad_yaml_world :: collab where
  "bad_yaml_world =
     (demo_world True True \<lparr>Steps = [], Uninstaller = None\<rparr>)
       \<lparr>yaml_safe_load := (\<lambda>body. Inl (OtherError ''YAMLError''))\<rparr>"

definition a_step :: "string \<Rightarrow> step" where
  "a_step a =
     \<lparr>action = a, url = None, file_name = None, rename = None, file_checksum = None,
      arguments = None, environment = None, dest = None, dlls = None, fonts = None,
      dll = None, step_type = None, step_key = None, step_value = None, step_data = None,
      step_name = None, step_file = None\<rparr>"

definition a_bottle :: BottleConfig where
  "a_bottle =
     \<lparr>Name = ''games'', Versioning = False, Installed_Dependencies = [],
      Uninstallers = Map.empty\<rparr>"

definition a_dependency :: dependency where
  "a_dependency = \<lparr>dep_name = ''vcredist'', Category = ''Essentials''\<rparr>"

text \<open>Steps and manifests to try the functions on. The first two manifests are the
  examples of the specification.\<close>

definition exe_step :: step where
  "exe_step =
     (a_step ''install_exe'')
       \<lparr>url := Some ''https://example.org/setup.exe'', file_name := Some ''setup.exe'',
        file_checksum := Some ''abc''\<rparr>"

definition archive_step :: step where
  "archive_step =
     (a_step ''archive_extract'')
       \<lparr>url := Some ''https://example.org/pack.zip'', file_name := Some ''pack.zip''\<rparr>"

definition cab_step_staged :: step where
  "cab_step_staged =
     (a_step ''cab_extract'')\<lparr>url := Some ''temp/pack'', file_name := Some ''fonts.cab''\<rparr>"

definition cab_step_url :: step where
  "cab_step_url =
     (a_step ''cab_extract'')
       \<lparr>url := Some ''https://example.org/fonts.cab'', file_name := Some ''fonts.cab''\<rparr>"

definition copy_step_glob :: step where
  "copy_step_glob =
     (a_step ''copy_dll'')
       \<lparr>url := Some ''temp/x'', file_name := Some ''*.dll'', dest := Some ''windows/system32''\<rparr>"

definition copy_step_single :: step where
  "copy_step_single =
     (a_step ''copy_dll'')
       \<lparr>url := Some ''temp/x'', file_name := Some ''a.dll'',
        dest := Some ''windows/system32/a.dll''\<rparr>"

definition font_reg_step :: step where
  "font_reg_step =
     (a_step ''register_font'')\<lparr>step_name := Some ''Arial'', step_file := Some ''arial.ttf''\<rparr>"

definition exe_manifest :: manifest where
  "exe_manifest = \<lparr>Steps = [exe_step], Uninstaller = Some ''Setup''\<rparr>"

definition archive_manifest :: manifest where
  "archive_manifest = \<lparr>Steps = [archive_step], Uninstaller = None\<rparr>"

definition staged_cab_manifest :: manifest where
  "staged_cab_manifest =
     \<lparr>Steps = [cab_step_staged, font_reg_step], Uninstaller = Some ''Pack''\<rparr>"

definition registry_manifest :: manifest where
  "registry_manifest = \<lparr>Steps = [font_reg_step], Uninstaller = None\<rparr>"

definition failing_manifest :: manifest where
  "failing_manifest =
     \<lparr>Steps = [exe_step, cab_step_url, archive_step, copy_step_single],
      Uninstaller = Some ''Setup''\<rparr>"

definition exe_then_staged_cab_manifest :: manifest where
  "exe_then_staged_cab_manifest =
     \<lparr>Steps = [exe_step, cab_step_staged], Uninstaller = Some ''Setup''\<rparr>"

definition staged_cab_then_copy_manifest :: manifest where
  "staged_cab_then_copy_manifest =
     \<lparr>Steps = [cab_step_staged, copy_step_glob], Uninstaller = None\<rparr>"

lemmas more_demo_defs =
  exe_then_staged_cab_manifest_def staged_cab_then_copy_manifest_def

lemmas io_defs =
  io_return_def io_raise_def io_bind_def io_then_def call_def emit_def call_raising_def
  call_result_def io_when_def subscript_def io_except_def discard_def

lemmas handler_defs =
  component_download_def renamed_file_def step_install_exe_msi_def uninstall_command_def
  step_uninstall_def cab_run_def step_cab_extract_def step_archive_extract_def
  shutil_copyfile_def step_install_fonts_def step_copy_dll_def dll_overrides_key_def
  fonts_key_def step_override_dll_def step_set_register_key_def step_register_font_def

lemmas install_defs =
  get_dependency_try_def get_dependency_def manifest_url_def step_blocks_def
  update_config_installed_def update_config_uninstaller_def record_install_def
  before_fetch_def fetch_manifest_def async_install_def

lemmas string_defs =
  truthy_def fmt_def startswith_def basename_def splitext0_def

lemmas demo_defs =
  demo_world_def http_error_world_def bad_yaml_world_def a_step_def a_bottle_def
  a_dependency_def exe_step_def archive_step_def cab_step_staged_def cab_step_url_def
  copy_step_glob_def copy_step_single_def font_reg_step_def exe_manifest_def
  archive_manifest_def staged_cab_manifest_def registry_manifest_def failing_manifest_def

section \<open>Properties\<close>

subsection \<open>The flag has_no_uninstaller\<close>

lemma exec_blocks_returns_flag:
  "exec_blocks bs flag tr = (Inr u, flag', tr') \<Longrightarrow>
     flag' = (flag \<or> (\<exists>b\<in>set bs. fst b \<and> fst (snd b)))"
proof (induction bs arbitrary: flag tr)
  case Nil
  then show ?case by simp
next
  case (Cons b bs)
  obtain cond sets handler where b: "b = (cond, sets, handler)"
    by (cases b) auto
  show ?case
  proof (cases cond)
    case True
    with Cons.prems b obtain tr1 where "exec_blocks bs (flag \<or> sets) tr1 = (Inr u, flag', tr')"
      by (auto split: prod.splits sum.splits)
    from Cons.IH [OF this] True b show ?thesis by auto
  next
    case False
    with Cons.prems b have "exec_blocks bs flag tr = (Inr u, flag', tr')" by simp
    from Cons.IH [OF this] False b show ?thesis by auto
  qed
qed

lemma step_blocks_sets_flag:
  "(\<exists>b\<in>set (step_blocks c cfg widget s). fst b \<and> fst (snd b))
     = (action s \<in> set no_uninstaller_actions)"
  by (auto simp: step_blocks_def no_uninstaller_actions_def)

lemma run_steps_returns_flag:
  "run_steps c cfg widget steps flag tr = (Inr u, flag', tr') \<Longrightarrow>
     flag' = (flag \<or> (\<exists>s\<in>set steps. action s \<in> set no_uninstaller_actions))"
proof (induction steps arbitrary: flag tr)
  case Nil
  then show ?case by simp
next
  case (Cons s steps)
  from Cons.prems obtain f1 t1 where
    a: "exec_blocks (step_blocks c cfg widget s) flag tr = (Inr (), f1, t1)" and
    b: "run_steps c cfg widget steps f1 t1 = (Inr u, flag', tr')"
    by (auto split: prod.splits sum.splits)
  from exec_blocks_returns_flag [OF a] have "f1 = (flag \<or> action s \<in> set no_uninstaller_actions)"
    by (simp only: step_blocks_sets_flag)
  with Cons.IH [OF b] show ?case by auto
qed

lemma exec_blocks_flag_mono:
  "flag \<Longrightarrow> fst (snd (exec_blocks bs flag tr))"
proof (induction bs arbitrary: tr)
  case Nil
  then show ?case by simp
next
  case (Cons b bs)
  obtain cond sets handler where b: "b = (cond, sets, handler)"
    by (cases b) auto
  from Cons show ?case
    by (auto simp: b split: prod.splits sum.splits)
qed

lemma exec_blocks_first_sets:
  "find fst bs = Some (True, True, h) \<Longrightarrow> fst (snd (exec_blocks bs flag tr))"
proof (induction bs arbitrary: flag tr)
  case Nil
  then show ?case by simp
next
  case (Cons b bs)
  obtain cond sets handler where b: "b = (cond, sets, handler)"
    by (cases b) auto
  show ?case
  proof (cases cond)
    case True
    with Cons.prems b have "sets" by simp
    with True b show ?thesis
      using exec_blocks_flag_mono [of True bs]
      by (auto split: prod.splits sum.splits)
  next
    case False
    with Cons b show ?thesis by simp
  qed
qed

text \<open>The flag is set before the handler runs: whatever the handler of such a step
  does, also raising, the flag is true after the step.\<close>

lemma flag_set_before_handler:
  assumes "action s \<in> set no_uninstaller_actions"
  shows "fst (snd (exec_blocks (step_blocks c cfg widget s) flag tr))"
proof -
  from assms have "\<exists>h. find fst (step_blocks c cfg widget s) = Some (True, True, h)"
    unfolding no_uninstaller_actions_def step_blocks_def
    by (elim disjE | simp)+
  then show ?thesis using exec_blocks_first_sets by blast
qed

subsection \<open>What async_install does with a resolved manifest\<close>

lemma async_install_resolved:
  "fetch_manifest c cfg dep tr = (Inr (Parsed m), tr3) \<Longrightarrow>
     async_install c cfg dep widget tr =
       (case run_steps c cfg widget (Steps m) False tr3 of
          (Inl e, flag, tr4) \<Rightarrow>
            (Inl e, \<lparr>config = cfg, has_no_uninstaller = flag, events = tr4\<rparr>)
        | (Inr _, flag, tr4) \<Rightarrow> record_install cfg dep widget m flag tr4)"
  by (simp add: async_install_def)

lemma async_install_returns:
  assumes "fetch_manifest c cfg dep tr = (Inr (Parsed m), tr3)"
    and "fst (async_install c cfg dep widget tr) = Inr b"
  obtains tr4 where
    "run_steps c cfg widget (Steps m) False tr3 =
       (Inr (), \<exists>s\<in>set (Steps m). action s \<in> set no_uninstaller_actions, tr4)"
    "async_install c cfg dep widget tr =
       record_install cfg dep widget m
         (\<exists>s\<in>set (Steps m). action s \<in> set no_uninstaller_actions) tr4"
proof -
  obtain r flag tr4 where rs: "run_steps c cfg widget (Steps m) False tr3 = (r, flag, tr4)"
    by (cases "run_steps c cfg widget (Steps m) False tr3") auto
  with assms have "r = Inr ()"
    by (cases r) (auto simp: async_install_resolved)
  with rs run_steps_returns_flag [of c cfg widget "Steps m" False tr3 "()" flag tr4]
  have "run_steps c cfg widget (Steps m) False tr3 =
          (Inr (), \<exists>s\<in>set (Steps m). action s \<in> set no_uninstaller_actions, tr4)"
    by simp
  moreover from this assms(1) have "async_install c cfg dep widget tr =
       record_install cfg dep widget m
         (\<exists>s\<in>set (Steps m). action s \<in> set no_uninstaller_actions) tr4"
    by (simp add: async_install_resolved)
  ultimately show thesis by (rule that)
qed

lemma async_install_raises:
  assumes "fst (async_install c cfg dep widget tr) = Inl e"
  shows "config (snd (async_install c cfg dep widget tr)) = cfg"
  using assms
  by (auto simp: async_install_def record_install_def Let_def
           split: prod.splits sum.splits if_splits fetched.splits)

lemma record_install_result: "fst (record_install cfg dep widget m flag tr) = Inr True"
  by (simp add: record_install_def Let_def split: prod.splits)

lemma record_install_flag:
  "has_no_uninstaller (snd (record_install cfg dep widget m flag tr)) = flag"
  by (simp add: record_install_def Let_def split: prod.splits)

lemma record_install_uninstallers:
  "Uninstallers (config (snd (record_install cfg dep widget m flag tr))) =
     (if truthy (Uninstaller m) \<or> flag
      then (Uninstallers cfg)
             (dep_name dep \<mapsto> (if flag then ''NO_UNINSTALLER'' else fmt (Uninstaller m)))
      else Uninstallers cfg)"
  by (simp add: record_install_def update_config_installed_def update_config_uninstaller_def Let_def)

lemma record_install_installed:
  "Installed_Dependencies (config (snd (record_install cfg dep widget m flag tr))) =
     (if dep_name dep \<in> set (Installed_Dependencies cfg)
      then Installed_Dependencies cfg
      else Installed_Dependencies cfg @ [dep_name dep])"
  by (simp add: record_install_def update_config_installed_def update_config_uninstaller_def Let_def)

lemma record_install_events:
  "events (snd (record_install cfg dep widget m flag tr)) =
     tr @ (if dep_name dep \<notin> set (Installed_Dependencies cfg)
           then [UpdateConfig ''Installed_Dependencies'' []] else [])
        @ (if truthy (Uninstaller m) \<or> flag
           then [UpdateConfig (dep_name dep) ''Uninstallers''] else [])
        @ [DownloadEntryRemove]
        @ (if widget then [WidgetSetInstalled (\<not> flag)] else [])"
  by (simp add: record_install_def Let_def)


lemma get_dependency_no_exception:
  "\<exists>r. fst (get_dependency c n cat plain tr) = Inr r"
  by (simp add: get_dependency_def io_bind_def call_def io_return_def
        split: prod.splits sum.splits)

lemma get_dependency_not_plain:
  "fst (get_dependency c n cat False tr) \<noteq> Inr (PlainText txt)"
  by (simp add: get_dependency_def get_dependency_try_def io_bind_def call_def call_result_def
        io_return_def io_raise_def split: prod.splits sum.splits)

subsection \<open>The uninstaller reference\<close>

text \<open>C1, as amended. For a manifest with at least one step whose action is
  cab_extract, archive_extract, install_cab_fonts, install_fonts, copy_cab_dll or
  copy_dll, every run of async_install that returns has recorded NO_UNINSTALLER as the
  uninstaller of the dependency, whatever uninstaller the manifest declares and
  whatever the collaborators answer (downloads, extractions and copies may fail).\<close>

theorem sentinel_recorded_when_install_returns:
  assumes "fst (fetch_manifest c cfg dep tr) = Inr (Parsed m)"
    and "\<exists>s\<in>set (Steps m). action s \<in> set no_uninstaller_actions"
    and "fst (async_install c cfg dep widget tr) = Inr b"
  shows "Uninstallers (config (snd (async_install c cfg dep widget tr))) (dep_name dep)
           = Some ''NO_UNINSTALLER''"
proof -
  obtain tr3 where f: "fetch_manifest c cfg dep tr = (Inr (Parsed m), tr3)"
    using assms(1) by (cases "fetch_manifest c cfg dep tr") auto
  from f assms(3) obtain tr4 where
    "async_install c cfg dep widget tr =
       record_install cfg dep widget m
         (\<exists>s\<in>set (Steps m). action s \<in> set no_uninstaller_actions) tr4"
    by (rule async_install_returns)
  with assms(2) show ?thesis
    by (simp add: record_install_uninstallers)
qed

theorem sentinel_recorded_when_install_returns_witness:
  "fst (fetch_manifest (demo_world True False failing_manifest) a_bottle a_dependency [])
     = Inr (Parsed failing_manifest)
   \<and> ''archive_extract'' \<in> set (map action (Steps failing_manifest))
   \<and> Uninstaller failing_manifest = Some ''Setup''
   \<and> fst (async_install (demo_world True False failing_manifest) a_bottle a_dependency True [])
       = Inr True
   \<and> Uninstallers
       (config (snd (async_install (demo_world True False failing_manifest)
                       a_bottle a_dependency True [])))
       ''vcredist'' = Some ''NO_UNINSTALLER''"
proof -
  have h1: "fst (fetch_manifest (demo_world True False failing_manifest) a_bottle a_dependency [])
              = Inr (Parsed failing_manifest)"
    by (simp add: install_defs io_defs demo_defs)
  have h2: "\<exists>s\<in>set (Steps failing_manifest). action s \<in> set no_uninstaller_actions"
    by (simp add: no_uninstaller_actions_def demo_defs)
  have h3: "fst (async_install (demo_world True False failing_manifest)
                   a_bottle a_dependency True []) = Inr True"
    by (simp add: install_defs handler_defs io_defs string_defs demo_defs)
  from sentinel_recorded_when_install_returns [OF h1 h2 h3] h1 h3
  show ?thesis by (simp add: demo_defs)
qed

text \<open>C1 as stated fails: the manifest has a cab_extract step and declares an
  uninstaller, the extraction of the staged cabinet fails, the handler calls exit(), and
  no uninstaller is recorded for the dependency.\<close>

theorem sentinel_not_recorded_counterexample:
  "fst (fetch_manifest (demo_world True False staged_cab_manifest) a_bottle a_dependency [])
     = Inr (Parsed staged_cab_manifest)
   \<and> action (hd (Steps staged_cab_manifest)) = ''cab_extract''
   \<and> Uninstallers
       (config (snd (async_install (demo_world True False staged_cab_manifest)
                       a_bottle a_dependency True [])))
       (dep_name a_dependency) = None"
  by (simp add: install_defs handler_defs io_defs string_defs demo_defs)

text \<open>C6. When the manifest declares no uninstaller (the key is absent or empty) and
  none of its steps has one of the six actions above, async_install leaves the
  Uninstallers mapping of the configuration as it was.\<close>

theorem no_uninstaller_entry_without_declaration:
  assumes "fst (fetch_manifest c cfg dep tr) = Inr (Parsed m)"
    and "\<not> truthy (Uninstaller m)"
    and "\<forall>s\<in>set (Steps m). action s \<notin> set no_uninstaller_actions"
  shows "Uninstallers (config (snd (async_install c cfg dep widget tr))) = Uninstallers cfg"
proof (cases "fst (async_install c cfg dep widget tr)")
  case (Inl e)
  then show ?thesis by (simp add: async_install_raises)
next
  case (Inr b)
  obtain tr3 where f: "fetch_manifest c cfg dep tr = (Inr (Parsed m), tr3)"
    using assms(1) by (cases "fetch_manifest c cfg dep tr") auto
  from f Inr obtain tr4 where
    "async_install c cfg dep widget tr =
       record_install cfg dep widget m
         (\<exists>s\<in>set (Steps m). action s \<in> set no_uninstaller_actions) tr4"
    by (rule async_install_returns)
  with assms(2,3) show ?thesis
    by (simp add: record_install_uninstallers)
qed

theorem no_uninstaller_entry_without_declaration_witness:
  "fst (fetch_manifest (demo_world True True registry_manifest) a_bottle a_dependency [])
     = Inr (Parsed registry_manifest)
   \<and> Uninstaller registry_manifest = None
   \<and> map action (Steps registry_manifest) = [''register_font'']
   \<and> fst (async_install (demo_world True True registry_manifest) a_bottle a_dependency True [])
       = Inr True
   \<and> Uninstallers
       (config (snd (async_install (demo_world True True registry_manifest)
                       a_bottle a_dependency True [])))
     = Uninstallers a_bottle"
proof -
  have h1: "fst (fetch_manifest (demo_world True True registry_manifest) a_bottle a_dependency [])
              = Inr (Parsed registry_manifest)"
    by (simp add: install_defs io_defs demo_defs)
  have h2: "\<not> truthy (Uninstaller registry_manifest)"
    by (simp add: truthy_def demo_defs)
  have h3: "\<forall>s\<in>set (Steps registry_manifest). action s \<notin> set no_uninstaller_actions"
    by (simp add: no_uninstaller_actions_def demo_defs)
  have h4: "fst (async_install (demo_world True True registry_manifest)
                   a_bottle a_dependency True []) = Inr True"
    by (simp add: install_defs handler_defs io_defs string_defs demo_defs)
  from no_uninstaller_entry_without_declaration [OF h1 h2 h3, of True] h1 h4
  show ?thesis by (simp add: demo_defs)
qed

subsection \<open>Resolving the manifest\<close>

text \<open>C8. get_dependency returns False, and raises nothing, when there is no
  connection, when opening or reading the URL fails, when the text is not YAML and, for
  plain=True, when the bytes are not UTF-8: every cause gives the same result. With
  plain=True and a text that was fetched and decoded, it returns that text and not a
  parsed manifest.\<close>

theorem get_dependency_collapses_failures:
  "(\<exists>r. fst (get_dependency c n cat plain tr) = Inr r)
   \<and> (\<not> check_connection c tr \<longrightarrow> fst (get_dependency c n cat plain tr) = Inr PyFalse)
   \<and> (\<forall>e. check_connection c tr
            \<and> urlopen_read c (tr @ [CheckConnection]) (manifest_url c cat n) = Inl e
          \<longrightarrow> fst (get_dependency c n cat plain tr) = Inr PyFalse)
   \<and> (\<forall>body e. check_connection c tr
            \<and> urlopen_read c (tr @ [CheckConnection]) (manifest_url c cat n) = Inr body
            \<and> \<not> plain \<and> yaml_safe_load c body = Inl e
          \<longrightarrow> fst (get_dependency c n cat plain tr) = Inr PyFalse)
   \<and> (\<forall>body e. check_connection c tr
            \<and> urlopen_read c (tr @ [CheckConnection]) (manifest_url c cat n) = Inr body
            \<and> plain \<and> decode_utf8 c body = Inl e
          \<longrightarrow> fst (get_dependency c n cat plain tr) = Inr PyFalse)
   \<and> (\<forall>body txt. check_connection c tr
            \<and> urlopen_read c (tr @ [CheckConnection]) (manifest_url c cat n) = Inr body
            \<and> plain \<and> decode_utf8 c body = Inr txt
          \<longrightarrow> fst (get_dependency c n cat plain tr) = Inr (PlainText txt))"
  by (simp add: get_dependency_def get_dependency_try_def io_bind_def call_def
        call_result_def io_return_def io_raise_def split: prod.splits sum.splits)

theorem get_dependency_collapses_failures_witness:
  "fst (get_dependency (demo_world False True exe_manifest) ''vcredist'' ''Essentials'' False [])
     = Inr PyFalse
   \<and> fst (get_dependency http_error_world ''vcredist'' ''Essentials'' False []) = Inr PyFalse
   \<and> fst (get_dependency bad_yaml_world ''vcredist'' ''Essentials'' False []) = Inr PyFalse
   \<and> fst (get_dependency (demo_world True True exe_manifest) ''vcredist'' ''Essentials'' True [])
       = Inr (PlainText ''Steps: []'')"
proof -
  have a: "\<not> check_connection (demo_world False True exe_manifest) []"
    by (simp add: demo_world_def)
  have b: "check_connection http_error_world []
           \<and> urlopen_read http_error_world ([] @ [CheckConnection])
                (manifest_url http_error_world ''Essentials'' ''vcredist'')
               = Inl (OtherError ''HTTPError'')"
    by (simp add: http_error_world_def demo_world_def)
  have c: "check_connection bad_yaml_world []
           \<and> urlopen_read bad_yaml_world ([] @ [CheckConnection])
                (manifest_url bad_yaml_world ''Essentials'' ''vcredist'') = Inr ''Steps: []''
           \<and> \<not> False
           \<and> yaml_safe_load bad_yaml_world ''Steps: []'' = Inl (OtherError ''YAMLError'')"
    by (simp add: bad_yaml_world_def demo_world_def)
  have d: "check_connection (demo_world True True exe_manifest) []
           \<and> urlopen_read (demo_world True True exe_manifest) ([] @ [CheckConnection])
                (manifest_url (demo_world True True exe_manifest) ''Essentials'' ''vcredist'')
               = Inr ''Steps: []''
           \<and> True
           \<and> decode_utf8 (demo_world True True exe_manifest) ''Steps: []'' = Inr ''Steps: []''"
    by (simp add: demo_world_def)
  from a get_dependency_collapses_failures
         [of "demo_world False True exe_manifest" "''vcredist''" "''Essentials''" False "[]"]
  have 1: "fst (get_dependency (demo_world False True exe_manifest) ''vcredist''
                  ''Essentials'' False []) = Inr PyFalse"
    by blast
  from b get_dependency_collapses_failures
         [of http_error_world "''vcredist''" "''Essentials''" False "[]"]
  have 2: "fst (get_dependency http_error_world ''vcredist'' ''Essentials'' False [])
             = Inr PyFalse"
    by blast
  from c get_dependency_collapses_failures
         [of bad_yaml_world "''vcredist''" "''Essentials''" False "[]"]
  have 3: "fst (get_dependency bad_yaml_world ''vcredist'' ''Essentials'' False [])
             = Inr PyFalse"
    by blast
  from d get_dependency_collapses_failures
         [of "demo_world True True exe_manifest" "''vcredist''" "''Essentials''" True "[]"]
  have 4: "fst (get_dependency (demo_world True True exe_manifest) ''vcredist''
                  ''Essentials'' True []) = Inr (PlainText ''Steps: []'')"
    by blast
  from 1 2 3 4 show ?thesis by simp
qed

subsection \<open>The result and the widget\<close>

lemma async_install_true_is_recorded:
  assumes "fst (async_install c cfg dep widget tr) = Inr True"
  obtains m flag tr4 where
    "async_install c cfg dep widget tr = record_install cfg dep widget m flag tr4"
  using assms
  by (auto simp: async_install_def split: prod.splits sum.splits if_splits fetched.splits)

text \<open>C5. When async_install returns True and a widget was given, the last thing it
  does is to tell the widget set_installed(True) if has_no_uninstaller is false and
  set_installed(False) if it is true; in both cases the name of the dependency is in
  Installed_Dependencies.\<close>

theorem widget_told_installed_unless_no_uninstaller:
  assumes "fst (async_install c cfg dep True tr) = Inr True"
  shows "last (events (snd (async_install c cfg dep True tr)))
           = WidgetSetInstalled (\<not> has_no_uninstaller (snd (async_install c cfg dep True tr)))
         \<and> dep_name dep
             \<in> set (Installed_Dependencies (config (snd (async_install c cfg dep True tr))))"
proof -
  from assms obtain m flag tr4 where
    "async_install c cfg dep True tr = record_install cfg dep True m flag tr4"
    by (rule async_install_true_is_recorded)
  then show ?thesis
    by (simp add: record_install_events record_install_flag record_install_installed)
qed

theorem widget_told_installed_unless_no_uninstaller_witness:
  "fst (async_install (demo_world True True archive_manifest) a_bottle a_dependency True [])
     = Inr True
   \<and> has_no_uninstaller
       (snd (async_install (demo_world True True archive_manifest) a_bottle a_dependency True []))
   \<and> last (events (snd (async_install (demo_world True True archive_manifest)
                          a_bottle a_dependency True [])))
       = WidgetSetInstalled False
   \<and> ''vcredist''
       \<in> set (Installed_Dependencies
                (config (snd (async_install (demo_world True True archive_manifest)
                                a_bottle a_dependency True []))))"
proof -
  have h: "fst (async_install (demo_world True True archive_manifest)
                  a_bottle a_dependency True []) = Inr True"
    by (simp add: install_defs handler_defs io_defs string_defs demo_defs)
  have f: "has_no_uninstaller
             (snd (async_install (demo_world True True archive_manifest)
                     a_bottle a_dependency True []))"
    by (simp add: install_defs handler_defs io_defs string_defs demo_defs)
  from widget_told_installed_unless_no_uninstaller [OF h] h f
  show ?thesis by (simp add: a_dependency_def)
qed




subsection \<open>A manifest that is not found\<close>





subsection \<open>Installed_Dependencies\<close>

lemma async_install_false_config:
  assumes "fst (async_install c cfg dep widget tr) = Inr False"
  shows "config (snd (async_install c cfg dep widget tr)) = cfg"
  using assms
  by (auto simp: async_install_def record_install_result
           split: prod.splits sum.splits if_splits fetched.splits
           dest: arg_cong [where f = fst])

text \<open>One run appends the name when it returns True and the name is not yet listed,
  and leaves the list alone otherwise.\<close>

lemma async_install_installed:
  "Installed_Dependencies (config (snd (async_install c cfg dep widget tr))) =
     (if fst (async_install c cfg dep widget tr) = Inr True
         \<and> dep_name dep \<notin> set (Installed_Dependencies cfg)
      then Installed_Dependencies cfg @ [dep_name dep]
      else Installed_Dependencies cfg)"
proof (cases "fst (async_install c cfg dep widget tr)")
  case (Inl e)
  then show ?thesis by (simp add: async_install_raises)
next
  case (Inr b)
  show ?thesis
  proof (cases b)
    case True
    with Inr obtain m flag tr4 where
      "async_install c cfg dep widget tr = record_install cfg dep widget m flag tr4"
      by (auto elim: async_install_true_is_recorded)
    with Inr True show ?thesis
      by (simp add: record_install_installed record_install_result)
  next
    case False
    with Inr show ?thesis by (simp add: async_install_false_config)
  qed
qed

lemma install_n_installed:
  "install_n c dep widget n cfg tr = (rs, cfg', tr') \<Longrightarrow>
     Installed_Dependencies cfg' =
       (if Inr True \<in> set rs \<and> dep_name dep \<notin> set (Installed_Dependencies cfg)
        then Installed_Dependencies cfg @ [dep_name dep]
        else Installed_Dependencies cfg)"
proof (induction n arbitrary: cfg tr rs)
  case 0
  then show ?case by simp
next
  case (Suc n)
  obtain r fr where a: "async_install c cfg dep widget tr = (r, fr)"
    by (cases "async_install c cfg dep widget tr") auto
  obtain rs1 where
    b: "install_n c dep widget n (config fr) (events fr) = (rs1, cfg', tr')" and
    rs: "rs = r # rs1"
    using Suc.prems a by (auto split: prod.splits)
  have one: "Installed_Dependencies (config fr) =
               (if r = Inr True \<and> dep_name dep \<notin> set (Installed_Dependencies cfg)
                then Installed_Dependencies cfg @ [dep_name dep]
                else Installed_Dependencies cfg)"
    using async_install_installed [of c cfg dep widget tr] a by simp
  from Suc.IH [OF b] one rs show ?case
    by (auto split: if_splits)
qed

text \<open>C3, as amended. Start from a configuration that lists the name of the
  dependency at most once, and run async_install any number of times in sequence. If at
  least one run returned True, the name is listed exactly once afterwards: the list is
  the old one when the name was there, and the old one with the name appended when it
  was not. A run that is cut short, or that finds no manifest, appends nothing.\<close>

theorem repeated_install_lists_name_once:
  assumes "install_n c dep widget n cfg tr = (rs, cfg', tr')"
    and "count_list (Installed_Dependencies cfg) (dep_name dep) \<le> 1"
  shows "(Inr True \<in> set rs \<longrightarrow>
            count_list (Installed_Dependencies cfg') (dep_name dep) = 1
            \<and> Installed_Dependencies cfg' =
                (if dep_name dep \<in> set (Installed_Dependencies cfg)
                 then Installed_Dependencies cfg
                 else Installed_Dependencies cfg @ [dep_name dep]))
         \<and> (Inr True \<notin> set rs \<longrightarrow> Installed_Dependencies cfg' = Installed_Dependencies cfg)"
proof -
  have present: "dep_name dep \<in> set (Installed_Dependencies cfg) \<Longrightarrow>
                   count_list (Installed_Dependencies cfg) (dep_name dep) = 1"
    using assms(2) count_list_0_iff [of "Installed_Dependencies cfg" "dep_name dep"]
    by arith
  have absent: "dep_name dep \<notin> set (Installed_Dependencies cfg) \<Longrightarrow>
                  count_list (Installed_Dependencies cfg @ [dep_name dep]) (dep_name dep) = 1"
    using count_list_0_iff [of "Installed_Dependencies cfg" "dep_name dep"]
    by simp
  from install_n_installed [OF assms(1)] present absent show ?thesis
    by (auto split: if_splits)
qed

theorem repeated_install_lists_name_once_witness:
  "fst (install_n (demo_world True True exe_manifest) a_dependency True 3 a_bottle [])
     = [Inr True, Inr True, Inr True]
   \<and> count_list (Installed_Dependencies a_bottle) ''vcredist'' = 0
   \<and> count_list
       (Installed_Dependencies
          (fst (snd (install_n (demo_world True True exe_manifest) a_dependency True 3
                       a_bottle []))))
       ''vcredist'' = 1
   \<and> Installed_Dependencies
       (fst (snd (install_n (demo_world True True exe_manifest) a_dependency True 3
                    a_bottle [])))
       = [''vcredist'']"
proof -
  have three: "(3::nat) = Suc (Suc (Suc 0))" by simp
  have rs: "fst (install_n (demo_world True True exe_manifest) a_dependency True 3 a_bottle [])
              = [Inr True, Inr True, Inr True]"
    unfolding three
    by (simp add: install_defs handler_defs io_defs string_defs demo_defs)
  obtain cfg' tr' where
    h: "install_n (demo_world True True exe_manifest) a_dependency True 3 a_bottle []
          = ([Inr True, Inr True, Inr True], cfg', tr')"
    using rs
    by (cases "install_n (demo_world True True exe_manifest) a_dependency True 3 a_bottle []")
       auto
  have c: "count_list (Installed_Dependencies a_bottle) (dep_name a_dependency) \<le> 1"
    by (simp add: a_bottle_def)
  from repeated_install_lists_name_once [OF h c] h rs
  show ?thesis by (simp add: a_bottle_def a_dependency_def)
qed

text \<open>C3 as stated fails: two runs in sequence, each cut short by exit() in
  cab_extract, and the name of the dependency is not in Installed_Dependencies at all.\<close>

theorem repeated_install_name_absent_counterexample:
  "count_list
     (Installed_Dependencies
        (fst (snd (install_n (demo_world True False staged_cab_manifest) a_dependency True
                     (Suc (Suc 0)) a_bottle []))))
     (dep_name a_dependency) = 0"
  by (simp add: install_defs handler_defs io_defs string_defs demo_defs)

subsection \<open>Failing handlers and the step loop\<close>

lemma run_steps_append:
  "run_steps c cfg widget (xs @ ys) flag tr =
     (case run_steps c cfg widget xs flag tr of
        (Inl e, flag', tr') \<Rightarrow> (Inl e, flag', tr')
      | (Inr _, flag', tr') \<Rightarrow> run_steps c cfg widget ys flag' tr')"
  by (induction xs arbitrary: flag tr) (auto split: prod.splits sum.splits)






lemma exec_cab_extract:
  assumes "action step = ''cab_extract''"
  shows "exec_blocks (step_blocks c cfg widget step) flag tr =
           (case step_cab_extract c step widget tr of
              (Inl e, tr') \<Rightarrow> (Inl e, True, tr')
            | (Inr _, tr') \<Rightarrow> (Inr (), True, tr'))"
  using assms unfolding step_blocks_def
  by (simp split: prod.splits sum.splits)





lemma cab_extract_staged_fails:
  assumes "url step = Some u" and "\<not> validate_url c u" and "startswith u ''temp/''"
    and "p = replace u ''temp/'' (Paths_temp c @ ''/'') @ ''/'' @ fmt (file_name step)"
    and "n = (if truthy (rename step) then splitext0 (fmt (rename step))
              else splitext0 (fmt (file_name step)))"
    and "\<not> cabextract_run c tr p (Some n)"
  shows "step_cab_extract c step widget tr =
           (Inl SystemExit,
            tr @ CabExtractRun p (Some n) # (if widget then [WidgetSetErr] else []))"
  using assms
  by (simp add: step_cab_extract_def cab_run_def io_defs)

text \<open>C7, as amended. In cab_extract, when the url of the step is not a valid URL
  but a staged temp/ path and the extraction of the cabinet fails, the handler tells
  the widget set_err (if there is a widget) and calls exit(). SystemExit ends the
  handler, the loop over the steps and async_install: the steps that follow do not run,
  the dependency and its uninstaller are not recorded, and nothing is returned.\<close>

theorem staged_cab_extract_failure_exits:
  assumes "action step = ''cab_extract''"
    and "url step = Some u" and "\<not> validate_url c u" and "startswith u ''temp/''"
    and "p = replace u ''temp/'' (Paths_temp c @ ''/'') @ ''/'' @ fmt (file_name step)"
    and "n = (if truthy (rename step) then splitext0 (fmt (rename step))
              else splitext0 (fmt (file_name step)))"
    and "\<not> cabextract_run c tr p (Some n)"
    and "fetch_manifest c cfg dep tr0 = (Inr (Parsed m), tr3)"
    and "Steps m = before @ step # rest"
    and "run_steps c cfg widget before False tr3 = (Inr (), flag, tr)"
  shows "run_steps c cfg widget (step # rest) flag tr =
           (Inl SystemExit, True,
            tr @ CabExtractRun p (Some n) # (if widget then [WidgetSetErr] else []))
         \<and> async_install c cfg dep widget tr0 =
             (Inl SystemExit,
              \<lparr>config = cfg, has_no_uninstaller = True,
               events = tr @ CabExtractRun p (Some n)
                           # (if widget then [WidgetSetErr] else [])\<rparr>)"
proof -
  have one: "run_steps c cfg widget (step # rest) flag tr =
               (Inl SystemExit, True,
                tr @ CabExtractRun p (Some n) # (if widget then [WidgetSetErr] else []))"
    using cab_extract_staged_fails [OF assms(2-7), of widget]
    by (simp add: exec_cab_extract [OF assms(1)])
  have "run_steps c cfg widget (Steps m) False tr3 =
          (Inl SystemExit, True,
           tr @ CabExtractRun p (Some n) # (if widget then [WidgetSetErr] else []))"
    using one assms(9,10) by (simp add: run_steps_append del: run_steps.simps)
  with assms(8) one show ?thesis
    by (simp add: async_install_resolved del: run_steps.simps)
qed

theorem staged_cab_extract_failure_exits_witness:
  "action cab_step_staged = ''cab_extract''
   \<and> url cab_step_staged = Some ''temp/pack''
   \<and> \<not> validate_url (demo_world True False exe_then_staged_cab_manifest) ''temp/pack''
   \<and> run_steps (demo_world True False exe_then_staged_cab_manifest) a_bottle True
         [exe_step] False
         [NewDownload ''vcredist'', CheckConnection,
          UrlOpen ''https://repo/dependencies/Essentials/vcredist.yml'']
       = (Inr (), False,
          [NewDownload ''vcredist'', CheckConnection,
           UrlOpen ''https://repo/dependencies/Essentials/vcredist.yml'',
           Download (Some ''https://example.org/setup.exe'') (Some ''setup.exe'') None
             (Some ''abc''),
           BtnInstallSetSensitive True])
   \<and> async_install (demo_world True False exe_then_staged_cab_manifest)
         a_bottle a_dependency True []
       = (Inl SystemExit,
          \<lparr>config = a_bottle, has_no_uninstaller = True,
           events =
             [NewDownload ''vcredist'', CheckConnection,
              UrlOpen ''https://repo/dependencies/Essentials/vcredist.yml'',
              Download (Some ''https://example.org/setup.exe'') (Some ''setup.exe'') None
                (Some ''abc''),
              BtnInstallSetSensitive True,
              CabExtractRun ''/tmp/bottles/pack/fonts.cab'' (Some ''fonts''),
              WidgetSetErr]\<rparr>)"
proof -
  let ?w = "demo_world True False exe_then_staged_cab_manifest"
  let ?tr3 = "[NewDownload ''vcredist'', CheckConnection,
               UrlOpen ''https://repo/dependencies/Essentials/vcredist.yml'']"
  let ?tr = "?tr3 @ [Download (Some ''https://example.org/setup.exe'') (Some ''setup.exe'')
                       None (Some ''abc''),
                     BtnInstallSetSensitive True]"
  have a1: "action cab_step_staged = ''cab_extract''"
    by (simp add: cab_step_staged_def a_step_def)
  have a2: "url cab_step_staged = Some ''temp/pack''"
    by (simp add: cab_step_staged_def a_step_def)
  have a3: "\<not> validate_url ?w ''temp/pack''"
    by (simp add: demo_world_def startswith_def)
  have a4: "startswith ''temp/pack'' ''temp/''"
    by (simp add: startswith_def)
  have a5: "''/tmp/bottles/pack/fonts.cab''
              = replace ''temp/pack'' ''temp/'' (Paths_temp ?w @ ''/'') @ ''/''
                  @ fmt (file_name cab_step_staged)"
    by (simp add: demo_world_def cab_step_staged_def a_step_def fmt_def)
  have a6: "''fonts'' = (if truthy (rename cab_step_staged)
                         then splitext0 (fmt (rename cab_step_staged))
                         else splitext0 (fmt (file_name cab_step_staged)))"
    by (simp add: cab_step_staged_def a_step_def string_defs)
  have a7: "\<not> cabextract_run ?w ?tr ''/tmp/bottles/pack/fonts.cab'' (Some ''fonts'')"
    by (simp add: demo_world_def)
  have a8: "fetch_manifest ?w a_bottle a_dependency []
              = (Inr (Parsed exe_then_staged_cab_manifest), ?tr3)"
    by (simp add: install_defs io_defs demo_defs more_demo_defs)
  have a9: "Steps exe_then_staged_cab_manifest = [exe_step] @ cab_step_staged # []"
    by (simp add: exe_then_staged_cab_manifest_def)
  have a10: "run_steps ?w a_bottle True [exe_step] False ?tr3 = (Inr (), False, ?tr)"
    by (simp add: install_defs handler_defs io_defs string_defs demo_defs)
  from staged_cab_extract_failure_exits [OF a1 a2 a3 a4 a5 a6 a7 a8 a9 a10]
    a1 a2 a3 a10
  show ?thesis by simp
qed

text \<open>C7 as stated fails: the loop over the steps does not go on. The first step is
  a cab_extract of a staged cabinet that cannot be extracted, the second registers a
  font; the loop ends with SystemExit after the first and the registry is not
  written.\<close>

theorem staged_cab_failure_stops_loop_counterexample:
  "run_steps (demo_world True False staged_cab_manifest) a_bottle True
     [cab_step_staged, font_reg_step] False []
   = (Inl SystemExit, True,
      [CabExtractRun ''/tmp/bottles/pack/fonts.cab'' (Some ''fonts''), WidgetSetErr])"
  by (simp add: install_defs handler_defs io_defs string_defs demo_defs)

subsection \<open>copy_dll\<close>

lemma shutil_copyfile_events:
  "snd (shutil_copyfile c src dst tr) = tr @ [CopyFile src dst]"
  by (simp add: shutil_copyfile_def call_raising_def split: option.splits)

text \<open>The loop copies the files in order, each to the target directory under its own
  base name, and stops at the first copy that raises.\<close>

lemma copy_globbed_events:
  "\<exists>k\<le>length files.
     snd (copy_globbed c dir files tr) =
       tr @ map (\<lambda>fg. CopyFile fg (dir @ ''/'' @ basename fg)) (take k files)
     \<and> (fst (copy_globbed c dir files tr) = Inr () \<longrightarrow> k = length files)"
proof (induction files arbitrary: tr)
  case Nil
  then show ?case by (simp add: io_return_def)
next
  case (Cons fg fgs)
  obtain r tr1 where s: "shutil_copyfile c fg (dir @ ''/'' @ basename fg) tr = (r, tr1)"
    by (cases "shutil_copyfile c fg (dir @ ''/'' @ basename fg) tr") auto
  with shutil_copyfile_events [of c fg "dir @ ''/'' @ basename fg" tr]
  have tr1: "tr1 = tr @ [CopyFile fg (dir @ ''/'' @ basename fg)]" by simp
  show ?case
  proof (cases r)
    case (Inl e)
    with s tr1 have "snd (copy_globbed c dir (fg # fgs) tr) =
                       tr @ map (\<lambda>fg. CopyFile fg (dir @ ''/'' @ basename fg))
                              (take (Suc 0) (fg # fgs))
                     \<and> fst (copy_globbed c dir (fg # fgs) tr) \<noteq> Inr ()"
      by (simp add: io_then_def io_bind_def)
    then show ?thesis by (intro exI [of _ "Suc 0"]) simp
  next
    case (Inr u)
    from Cons.IH [of tr1] obtain k where
      k: "k \<le> length fgs"
         "snd (copy_globbed c dir fgs tr1) =
            tr1 @ map (\<lambda>fg. CopyFile fg (dir @ ''/'' @ basename fg)) (take k fgs)"
         "fst (copy_globbed c dir fgs tr1) = Inr () \<longrightarrow> k = length fgs"
      by blast
    with Inr s tr1 have "snd (copy_globbed c dir (fg # fgs) tr) =
                       tr @ map (\<lambda>fg. CopyFile fg (dir @ ''/'' @ basename fg))
                              (take (Suc k) (fg # fgs))
                     \<and> (fst (copy_globbed c dir (fg # fgs) tr) = Inr ()
                          \<longrightarrow> Suc k = length (fg # fgs))"
      by (simp add: io_then_def io_bind_def)
    with k(1) show ?thesis by (intro exI [of _ "Suc k"]) simp
  qed
qed

text \<open>C10. In copy_dll the meaning of dest depends on file_name. With a star in
  file_name, the files found by glob are copied in order, each to
  bottle/drive_c/dest/basename: dest is a directory (and all of them are copied when the
  handler returns None). With no star, the one file is copied to bottle/drive_c/dest:
  dest is the whole target path and no file name is appended.\<close>

theorem copy_dll_dest_depends_on_wildcard:
  assumes "url step = Some u" and "file_name step = Some fn"
    and "src = replace u ''temp/'' (Paths_temp c @ ''/'') @ ''/'' @ fn"
    and "target = get_bottle_path c cfg @ ''/drive_c/'' @ fmt (dest step)"
  shows "(CHR ''*'' \<in> set fn \<longrightarrow>
            (\<exists>k\<le>length (glob c tr src).
               snd (step_copy_dll c cfg step tr) =
                 tr @ Glob src
                    # map (\<lambda>fg. CopyFile fg (target @ ''/'' @ basename fg))
                        (take k (glob c tr src))
               \<and> (fst (step_copy_dll c cfg step tr) = Inr None
                    \<longrightarrow> k = length (glob c tr src))))
         \<and> (CHR ''*'' \<notin> set fn \<longrightarrow>
              snd (step_copy_dll c cfg step tr) = tr @ [CopyFile src target])"
proof (intro conjI impI)
  assume star: "CHR ''*'' \<in> set fn"
  from copy_globbed_events [of "glob c tr src" c target "tr @ [Glob src]"]
  obtain k where
    k: "k \<le> length (glob c tr src)"
       "snd (copy_globbed c target (glob c tr src) (tr @ [Glob src])) =
          (tr @ [Glob src])
            @ map (\<lambda>fg. CopyFile fg (target @ ''/'' @ basename fg)) (take k (glob c tr src))"
       "fst (copy_globbed c target (glob c tr src) (tr @ [Glob src])) = Inr ()
          \<longrightarrow> k = length (glob c tr src)"
    by blast
  obtain r tr1 where g: "copy_globbed c target (glob c tr src) (tr @ [Glob src]) = (r, tr1)"
    by (cases "copy_globbed c target (glob c tr src) (tr @ [Glob src])") auto
  have "snd (step_copy_dll c cfg step tr) = tr1
        \<and> (fst (step_copy_dll c cfg step tr) = Inr None \<longrightarrow> r = Inr ())"
    using assms star g
    by (cases r)
       (auto simp: step_copy_dll_def subscript_def io_return_def io_bind_def io_then_def
          io_except_def call_def)
  with k g show "\<exists>k\<le>length (glob c tr src).
               snd (step_copy_dll c cfg step tr) =
                 tr @ Glob src
                    # map (\<lambda>fg. CopyFile fg (target @ ''/'' @ basename fg))
                        (take k (glob c tr src))
               \<and> (fst (step_copy_dll c cfg step tr) = Inr None
                    \<longrightarrow> k = length (glob c tr src))"
    by (intro exI [of _ k]) simp
next
  assume nostar: "CHR ''*'' \<notin> set fn"
  obtain r tr1 where s: "shutil_copyfile c src target tr = (r, tr1)"
    by (cases "shutil_copyfile c src target tr") auto
  with shutil_copyfile_events [of c src target tr]
  have "tr1 = tr @ [CopyFile src target]" by simp
  with assms nostar s show "snd (step_copy_dll c cfg step tr) = tr @ [CopyFile src target]"
    by (cases r)
       (auto simp: step_copy_dll_def subscript_def io_return_def io_bind_def io_then_def
          io_except_def)
qed

theorem copy_dll_dest_depends_on_wildcard_witness:
  "step_copy_dll (demo_world True True exe_manifest) a_bottle copy_step_glob []
     = (Inr None,
        [Glob ''/tmp/bottles/x/*.dll'',
         CopyFile ''/tmp/bottles/x/a.dll''
           ''/home/bottles/games/drive_c/windows/system32/a.dll'',
         CopyFile ''/tmp/bottles/x/sub/b.dll''
           ''/home/bottles/games/drive_c/windows/system32/b.dll''])
   \<and> step_copy_dll (demo_world True True exe_manifest) a_bottle copy_step_single []
       = (Inr None,
          [CopyFile ''/tmp/bottles/x/a.dll''
             ''/home/bottles/games/drive_c/windows/system32/a.dll''])"
proof -
  let ?w = "demo_world True True exe_manifest"
  have g1: "url copy_step_glob = Some ''temp/x''"
    and g2: "file_name copy_step_glob = Some ''*.dll''"
    and g3: "''/tmp/bottles/x/*.dll''
               = replace ''temp/x'' ''temp/'' (Paths_temp ?w @ ''/'') @ ''/'' @ ''*.dll''"
    and g4: "''/home/bottles/games/drive_c/windows/system32''
               = get_bottle_path ?w a_bottle @ ''/drive_c/'' @ fmt (dest copy_step_glob)"
    by (simp_all add: copy_step_glob_def a_step_def demo_world_def a_bottle_def fmt_def)
  have s1: "url copy_step_single = Some ''temp/x''"
    and s2: "file_name copy_step_single = Some ''a.dll''"
    and s3: "''/tmp/bottles/x/a.dll''
               = replace ''temp/x'' ''temp/'' (Paths_temp ?w @ ''/'') @ ''/'' @ ''a.dll''"
    and s4: "''/home/bottles/games/drive_c/windows/system32/a.dll''
               = get_bottle_path ?w a_bottle @ ''/drive_c/'' @ fmt (dest copy_step_single)"
    by (simp_all add: copy_step_single_def a_step_def demo_world_def a_bottle_def fmt_def)
  have r1: "fst (step_copy_dll ?w a_bottle copy_step_glob []) = Inr None"
    and r2: "fst (step_copy_dll ?w a_bottle copy_step_single []) = Inr None"
    by (simp_all add: handler_defs io_defs string_defs demo_defs)
  have gl: "glob ?w [] ''/tmp/bottles/x/*.dll''
              = [''/tmp/bottles/x/a.dll'', ''/tmp/bottles/x/sub/b.dll'']"
    by (simp add: demo_world_def)
  from copy_dll_dest_depends_on_wildcard [OF g1 g2 g3 g4, of "[]"] r1 gl
  have "snd (step_copy_dll ?w a_bottle copy_step_glob []) =
          [Glob ''/tmp/bottles/x/*.dll'',
           CopyFile ''/tmp/bottles/x/a.dll''
             ''/home/bottles/games/drive_c/windows/system32/a.dll'',
           CopyFile ''/tmp/bottles/x/sub/b.dll''
             ''/home/bottles/games/drive_c/windows/system32/b.dll'']"
    by (auto simp: basename_def)
  moreover from copy_dll_dest_depends_on_wildcard [OF s1 s2 s3 s4, of "[]"]
  have "snd (step_copy_dll ?w a_bottle copy_step_single []) =
          [CopyFile ''/tmp/bottles/x/a.dll''
             ''/home/bottles/games/drive_c/windows/system32/a.dll'']"
    by simp
  ultimately show ?thesis using r1 r2
    by (simp add: prod_eq_iff)
qed

end
